theory Spec2Isabelle
  imports Main
begin

section \<open>The user controller of tusk: data model\<close>

text \<open>
  The controller (controllers/user\_controller.go) is a set of four HTTP handlers over one
  table of users. A handler reads a request, issues statements through the ORM handle,
  and writes one JSON response. The model below keeps this shape: a handler is a function
  from the request and the table to the response, the table afterwards and the list of
  statements it issued.

  Go strings are byte sequences and are modelled by \<open>string\<close>.
\<close>

subsection \<open>Timestamps and their layout\<close>

text \<open>
  A \<open>time.Time\<close> is modelled by the civil date and clock reading in its own location,
  which is all that \<open>Format("2006-01-02 15:04:05")\<close> reads.
\<close>

record Time =
  year :: nat
  month :: nat
  day :: nat
  hour :: nat
  minute :: nat
  second :: nat

definition digit_char :: "nat \<Rightarrow> char" where
  "digit_char n = char_of (48 + n mod 10)"

fun decimal :: "nat \<Rightarrow> string" where
  "decimal n = (if n < 10 then [digit_char n] else decimal (n div 10) @ [digit_char n])"

declare decimal.simps [simp del]

text \<open>Go's \<open>appendInt(b, x, width)\<close>: decimal digits, zero-padded on the left to \<open>width\<close>.\<close>

definition appendInt :: "nat \<Rightarrow> nat \<Rightarrow> string" where
  "appendInt x width = replicate (width - length (decimal x)) (CHR ''0'') @ decimal x"

definition Format :: "Time \<Rightarrow> string" where
  "Format t =
     appendInt (year t) 4 @ ''-'' @ appendInt (month t) 2 @ ''-'' @ appendInt (day t) 2 @ '' '' @
     appendInt (hour t) 2 @ '':'' @ appendInt (minute t) 2 @ '':'' @ appendInt (second t) 2"

text \<open>The zero value \<open>time.Time{}\<close>: the first instant of year 1.\<close>

definition zero_Time :: Time where
  "zero_Time = \<lparr>year = 1, month = 1, day = 1, hour = 0, minute = 0, second = 0\<rparr>"

subsection \<open>Rows, requests and responses\<close>

text \<open>
  Modelled from the spec: the declaration of \<open>models.User\<close> (package tusk/models) is not
  among the sources. The spec's data model gives it a numeric id, a role, a name, an email,
  a hashed password and created/updated timestamps; the handlers read exactly these fields.
\<close>

record User =
  UserId :: int
  Role :: string
  Name :: string
  Email :: string
  Password :: string
  CreatedAt :: Time
  UpdatedAt :: Time

record LoginRequest =
  login_Email :: string
  login_Password :: string

record CreateUserRequest =
  create_Name :: string
  create_Email :: string
  create_Password :: string

record UserResponse =
  resp_Id :: int
  resp_Role :: string
  resp_Name :: string
  resp_Email :: string
  resp_CreatedAt :: string
  resp_UpdatedAt :: string

subsection \<open>JSON values\<close>

text \<open>
  What \<open>c.JSON\<close> writes. An object keeps its members in the order in which the source
  lists them. A Go slice is \<open>None\<close> when it is nil and \<open>Some xs\<close> otherwise; the encoder
  writes a nil slice as \<open>null\<close> and any other slice as an array.
\<close>

datatype json =
    JNull
  | JNum int
  | JStr string
  | JArr "json list"
  | JObj "(string \<times> json) list"

type_synonym 'a slice = "'a list option"

definition append_slice :: "'a slice \<Rightarrow> 'a \<Rightarrow> 'a slice" where
  "append_slice s x = (case s of None \<Rightarrow> Some [x] | Some xs \<Rightarrow> Some (xs @ [x]))"

definition len_slice :: "'a slice \<Rightarrow> nat" where
  "len_slice s = (case s of None \<Rightarrow> 0 | Some xs \<Rightarrow> length xs)"

definition marshal_slice :: "('a \<Rightarrow> json) \<Rightarrow> 'a slice \<Rightarrow> json" where
  "marshal_slice f s = (case s of None \<Rightarrow> JNull | Some xs \<Rightarrow> JArr (map f xs))"

definition marshal_UserResponse :: "UserResponse \<Rightarrow> json" where
  "marshal_UserResponse r = JObj
     [(''id'', JNum (resp_Id r)),
      (''role'', JStr (resp_Role r)),
      (''name'', JStr (resp_Name r)),
      (''email'', JStr (resp_Email r)),
      (''createdAt'', JStr (resp_CreatedAt r)),
      (''updatedAt'', JStr (resp_UpdatedAt r))]"

text \<open>The member of an object under a key; nothing for a value that is not an object.\<close>

definition json_member :: "string \<Rightarrow> json \<Rightarrow> json option" where
  "json_member k j = (case j of JObj kvs \<Rightarrow> map_of kvs k | _ \<Rightarrow> None)"

text \<open>Every key that occurs in a value, at any depth.\<close>

fun keys_of :: "json \<Rightarrow> string list" where
  "keys_of JNull = []"
| "keys_of (JNum n) = []"
| "keys_of (JStr s) = []"
| "keys_of (JArr js) = concat (map keys_of js)"
| "keys_of (JObj kvs) = concat (map (\<lambda>kv. fst kv # keys_of (snd kv)) kvs)"

record Response =
  status :: nat
  body :: json

definition StatusOK :: nat where "StatusOK = 200"
definition StatusCreated :: nat where "StatusCreated = 201"
definition StatusBadRequest :: nat where "StatusBadRequest = 400"
definition StatusUnauthorized :: nat where "StatusUnauthorized = 401"
definition StatusNotFound :: nat where "StatusNotFound = 404"
definition StatusInternalServerError :: nat where "StatusInternalServerError = 500"

text \<open>\<open>c.JSON(code, gin.H{"error": msg})\<close>.\<close>

definition error_JSON :: "nat \<Rightarrow> string \<Rightarrow> Response" where
  "error_JSON code msg = \<lparr>status = code, body = JObj [(''error'', JStr msg)]\<rparr>"

section \<open>The libraries the handlers call\<close>

text \<open>
  The handlers are glue over four libraries: strconv, gin with its validator, bcrypt and
  gorm over MySQL. Each is modelled by what the handlers observe of it. What cannot be
  computed from the arguments alone (the validator's email pattern, the hash function, the
  failures of the database connection) is a parameter.
\<close>

subsection \<open>strconv.Atoi\<close>

definition is_digit :: "char \<Rightarrow> bool" where
  "is_digit c = (48 \<le> (of_char c :: nat) \<and> (of_char c :: nat) \<le> 57)"

definition digits_value :: "string \<Rightarrow> int" where
  "digits_value ds = foldl (\<lambda>n c. 10 * n + (int (of_char c) - 48)) 0 ds"

text \<open>
  An optional sign, then one or more decimal digits, with a value that fits the 64-bit
  \<open>int\<close>; anything else is an error.
\<close>

definition Atoi :: "string \<Rightarrow> int option" where
  "Atoi s =
     (let neg = (s \<noteq> [] \<and> hd s = CHR ''-'');
          ds = (if s \<noteq> [] \<and> (hd s = CHR ''-'' \<or> hd s = CHR ''+'') then tl s else s);
          n = (if neg then - digits_value ds else digits_value ds)
      in if ds = [] \<or> \<not> list_all is_digit ds then None
         else if n < - (2 ^ 63) \<or> 2 ^ 63 \<le> n then None
         else Some n)"

subsection \<open>Binding and validation\<close>

text \<open>
  \<open>utf8.RuneCountInString\<close> on well-formed UTF-8, which is what the JSON decoder
  produces: every byte that is not a continuation byte (\<open>10xxxxxx\<close>) starts a rune.
\<close>

definition is_continuation :: "char \<Rightarrow> bool" where
  "is_continuation c = ((of_char c :: nat) div 64 = 2)"

definition RuneCountInString :: "string \<Rightarrow> nat" where
  "RuneCountInString s = length (filter (\<lambda>c. \<not> is_continuation c) s)"

text \<open>
  The parameters of a run: the validator's \<open>email\<close> pattern and the two bcrypt functions
  (\<open>CompareHashAndPassword\<close> holds when the library returns no error;
  \<open>GenerateFromPassword\<close> is \<open>None\<close> when it returns one).
\<close>

record Env =
  is_email :: "string \<Rightarrow> bool"
  CompareHashAndPassword :: "string \<Rightarrow> string \<Rightarrow> bool"
  GenerateFromPassword :: "string \<Rightarrow> string option"

text \<open>
  The body of a request as the JSON decoder leaves it: a decoding error with its message,
  or the request struct, where a field absent from the body is the empty string.
\<close>

datatype 'r payload = Undecodable string | Decoded 'r

text \<open>A field's tags are tried in order; the first that fails is the field's error.\<close>

fun first_failed :: "(string \<times> bool) list \<Rightarrow> string option" where
  "first_failed [] = None"
| "first_failed ((tag, ok) # rest) = (if ok then first_failed rest else Some tag)"

definition quoted :: "string \<Rightarrow> string" where
  "quoted s = CHR 0x27 # s @ [CHR 0x27]"

definition FieldError :: "string \<Rightarrow> string \<Rightarrow> string \<Rightarrow> string" where
  "FieldError strct field tag =
     ''Key: '' @ quoted (strct @ ''.'' @ field) @ '' Error:Field validation for '' @
     quoted field @ '' failed on the '' @ quoted tag @ '' tag''"

definition validate_field :: "string \<Rightarrow> string \<Rightarrow> (string \<times> bool) list \<Rightarrow> string list" where
  "validate_field strct field tags =
     (case first_failed tags of None \<Rightarrow> [] | Some tag \<Rightarrow> [FieldError strct field tag])"

fun join_lines :: "string list \<Rightarrow> string" where
  "join_lines [] = []"
| "join_lines [l] = l"
| "join_lines (l # ls) = l @ [CHR 0x0A] @ join_lines ls"

text \<open>The binding tags of \<open>LoginRequest\<close> and \<open>CreateUserRequest\<close>, field by field.\<close>

definition validate_LoginRequest :: "Env \<Rightarrow> LoginRequest \<Rightarrow> string list" where
  "validate_LoginRequest E r =
     validate_field ''LoginRequest'' ''Email''
       [(''required'', login_Email r \<noteq> []), (''email'', is_email E (login_Email r))] @
     validate_field ''LoginRequest'' ''Password''
       [(''required'', login_Password r \<noteq> [])]"

definition validate_CreateUserRequest :: "Env \<Rightarrow> CreateUserRequest \<Rightarrow> string list" where
  "validate_CreateUserRequest E r =
     validate_field ''CreateUserRequest'' ''Name''
       [(''required'', create_Name r \<noteq> [])] @
     validate_field ''CreateUserRequest'' ''Email''
       [(''required'', create_Email r \<noteq> []), (''email'', is_email E (create_Email r))] @
     validate_field ''CreateUserRequest'' ''Password''
       [(''required'', create_Password r \<noteq> []),
        (''min'', 6 \<le> RuneCountInString (create_Password r))]"

definition ShouldBindJSON :: "('r \<Rightarrow> string list) \<Rightarrow> 'r payload \<Rightarrow> string + 'r" where
  "ShouldBindJSON validate p =
     (case p of
        Undecodable msg \<Rightarrow> Inl msg
      | Decoded r \<Rightarrow> (if validate r = [] then Inr r else Inl (join_lines (validate r))))"

subsection \<open>The ORM handle\<close>

text \<open>
  The handle is the table of users in storage order, the next auto-increment id, and a log
  of the statements sent to the server. A statement can fail in the connection or the
  server for reasons outside the table; \<open>driver\<close> says for each statement whether it
  does, and with which error. The comparison \<open>=\<close> of a \<open>WHERE\<close> clause is equality of
  the two strings.
\<close>

datatype db_error = ErrRecordNotFound | ErrMissingWhereClause | DriverError string

definition Error :: "db_error \<Rightarrow> string" where
  "Error e =
     (case e of
        ErrRecordNotFound \<Rightarrow> ''record not found''
      | ErrMissingWhereClause \<Rightarrow> ''WHERE conditions required''
      | DriverError msg \<Rightarrow> msg)"

datatype stmt =
    SelectFirstByEmail string
  | SelectFirstById int
  | SelectByRole string
  | InsertUser User
  | DeleteById int

type_synonym driver = "stmt \<Rightarrow> db_error option"

record gorm_DB =
  rows :: "User list"
  auto_increment :: int
  issued :: "stmt list"

definition send :: "stmt \<Rightarrow> gorm_DB \<Rightarrow> gorm_DB" where
  "send s db = db\<lparr>issued := issued db @ [s]\<rparr>"

text \<open>\<open>First\<close> orders by primary key and takes one row.\<close>

fun least_Id :: "User \<Rightarrow> User list \<Rightarrow> User" where
  "least_Id u [] = u"
| "least_Id u (v # vs) = least_Id (if UserId v < UserId u then v else u) vs"

definition First :: "driver \<Rightarrow> stmt \<Rightarrow> (User \<Rightarrow> bool) \<Rightarrow> gorm_DB \<Rightarrow> (db_error + User) \<times> gorm_DB" where
  "First drv s cond db =
     (case drv s of
        Some e \<Rightarrow> (Inl e, send s db)
      | None \<Rightarrow>
          (case filter cond (rows db) of
             [] \<Rightarrow> (Inl ErrRecordNotFound, send s db)
           | u # us \<Rightarrow> (Inr (least_Id u us), send s db)))"

text \<open>\<open>DB.Where("email = ?", email).First(&user)\<close> and \<open>DB.First(&user, id)\<close>.\<close>

definition First_Where_email :: "driver \<Rightarrow> string \<Rightarrow> gorm_DB \<Rightarrow> (db_error + User) \<times> gorm_DB" where
  "First_Where_email drv email db = First drv (SelectFirstByEmail email) (\<lambda>u. Email u = email) db"

definition First_id :: "driver \<Rightarrow> int \<Rightarrow> gorm_DB \<Rightarrow> (db_error + User) \<times> gorm_DB" where
  "First_id drv i db = First drv (SelectFirstById i) (\<lambda>u. UserId u = i) db"

text \<open>
  \<open>DB.Create(&u)\<close> for a value whose id and timestamps are zero, as both callers pass it:
  the server assigns the id, the ORM stamps both times with the clock reading \<open>now\<close>.
\<close>

definition Create :: "driver \<Rightarrow> Time \<Rightarrow> User \<Rightarrow> gorm_DB \<Rightarrow> (db_error + User) \<times> gorm_DB" where
  "Create drv now u db =
     (let u' = u\<lparr>CreatedAt := now, UpdatedAt := now\<rparr>
      in case drv (InsertUser u') of
           Some e \<Rightarrow> (Inl e, send (InsertUser u') db)
         | None \<Rightarrow>
             (let stored = u'\<lparr>UserId := auto_increment db\<rparr>
              in (Inr stored,
                  send (InsertUser u')
                    (db\<lparr>rows := rows db @ [stored], auto_increment := auto_increment db + 1\<rparr>))))"

text \<open>
  \<open>DB.Delete(&u)\<close> deletes by the primary key of \<open>u\<close>. With a zero primary key the ORM has
  no condition to delete by and refuses, without sending a statement.
\<close>

definition Delete_value :: "driver \<Rightarrow> User \<Rightarrow> gorm_DB \<Rightarrow> db_error option \<times> gorm_DB" where
  "Delete_value drv u db =
     (if UserId u = 0 then (Some ErrMissingWhereClause, db)
      else case drv (DeleteById (UserId u)) of
             Some e \<Rightarrow> (Some e, send (DeleteById (UserId u)) db)
           | None \<Rightarrow>
               (None, send (DeleteById (UserId u)) (db\<lparr>rows := filter (\<lambda>v. UserId v \<noteq> UserId u) (rows db)\<rparr>)))"

text \<open>
  \<open>DB.Select("id, name, email, role, created_at, updated_at").Where("role = ?", role).Find(&users)\<close>:
  the password column is not selected, so the field keeps its zero value.
\<close>

definition Select_Where_role_Find :: "driver \<Rightarrow> string \<Rightarrow> gorm_DB \<Rightarrow> (db_error + User list) \<times> gorm_DB" where
  "Select_Where_role_Find drv role db =
     (case drv (SelectByRole role) of
        Some e \<Rightarrow> (Inl e, send (SelectByRole role) db)
      | None \<Rightarrow>
          (Inr (map (\<lambda>u. u\<lparr>Password := []\<rparr>) (filter (\<lambda>u. Role u = role) (rows db))),
           send (SelectByRole role) db))"

section \<open>The handlers\<close>

text \<open>
  Each handler takes the parameters of the run, the driver, the handle and its input, and
  returns the response written with the handle afterwards. The branches follow the
  source; every early \<open>return\<close> is one branch.
\<close>

definition to_UserResponse :: "User \<Rightarrow> UserResponse" where
  "to_UserResponse user =
     \<lparr>resp_Id = UserId user,
      resp_Role = Role user,
      resp_Name = Name user,
      resp_Email = Email user,
      resp_CreatedAt = Format (CreatedAt user),
      resp_UpdatedAt = Format (UpdatedAt user)\<rparr>"

definition wrong_credentials :: Response where
  "wrong_credentials = error_JSON StatusUnauthorized ''Email or Password is Wrong''"

definition Login :: "Env \<Rightarrow> driver \<Rightarrow> gorm_DB \<Rightarrow> LoginRequest payload \<Rightarrow> Response \<times> gorm_DB" where
  "Login E drv db p =
     (case ShouldBindJSON (validate_LoginRequest E) p of
        Inl err \<Rightarrow> (error_JSON StatusBadRequest err, db)
      | Inr loginReq \<Rightarrow>
          (case First_Where_email drv (login_Email loginReq) db of
             (Inl errDB, db1) \<Rightarrow> (wrong_credentials, db1)
           | (Inr user, db1) \<Rightarrow>
               if \<not> CompareHashAndPassword E (Password user) (login_Password loginReq)
               then (wrong_credentials, db1)
               else (\<lparr>status = StatusOK,
                      body = JObj [(''message'', JStr ''Login successful''),
                                   (''user'', marshal_UserResponse (to_UserResponse user))]\<rparr>,
                     db1)))"

definition CreateAccount ::
    "Env \<Rightarrow> driver \<Rightarrow> Time \<Rightarrow> gorm_DB \<Rightarrow> CreateUserRequest payload \<Rightarrow> Response \<times> gorm_DB" where
  "CreateAccount E drv now db p =
     (case ShouldBindJSON (validate_CreateUserRequest E) p of
        Inl err \<Rightarrow> (error_JSON StatusBadRequest err, db)
      | Inr createReq \<Rightarrow>
          (case First_Where_email drv (create_Email createReq) db of
             (Inr existingUser, db1) \<Rightarrow> (error_JSON StatusBadRequest ''Email already exists'', db1)
           | (Inl e, db1) \<Rightarrow>
               (case GenerateFromPassword E (create_Password createReq) of
                  None \<Rightarrow> (error_JSON StatusInternalServerError ''Failed to hash password'', db1)
                | Some hashedPassword \<Rightarrow>
                    (case Create drv now
                            \<lparr>UserId = 0, Role = ''Employee'', Name = create_Name createReq,
                             Email = create_Email createReq, Password = hashedPassword,
                             CreatedAt = zero_Time,
                             UpdatedAt = zero_Time\<rparr>
                            db1 of
                       (Inl errDB, db2) \<Rightarrow> (error_JSON StatusInternalServerError (Error errDB), db2)
                     | (Inr newUser, db2) \<Rightarrow>
                         (\<lparr>status = StatusCreated,
                           body = JObj [(''message'', JStr ''User created successfully''),
                                        (''user'', marshal_UserResponse (to_UserResponse newUser))]\<rparr>,
                          db2)))))"

definition Delete :: "driver \<Rightarrow> gorm_DB \<Rightarrow> string \<Rightarrow> Response \<times> gorm_DB" where
  "Delete drv db idParam =
     (case Atoi idParam of
        None \<Rightarrow> (error_JSON StatusBadRequest ''Invalid user ID'', db)
      | Some i \<Rightarrow>
          (case First_id drv i db of
             (Inl e, db1) \<Rightarrow> (error_JSON StatusNotFound ''User not found'', db1)
           | (Inr user, db1) \<Rightarrow>
               (case Delete_value drv user db1 of
                  (Some errDB, db2) \<Rightarrow> (error_JSON StatusInternalServerError (Error errDB), db2)
                | (None, db2) \<Rightarrow>
                    (\<lparr>status = StatusOK,
                      body = JObj [(''message'', JStr ''User deleted successfully''),
                                   (''deletedUser'',
                                    JObj [(''id'', JNum (UserId user)),
                                          (''name'', JStr (Name user)),
                                          (''email'', JStr (Email user))])]\<rparr>,
                     db2))))"

text \<open>
  The loop of \<open>GetEmployee\<close>: \<open>userResponses\<close> is declared without a value, so it starts as
  the nil slice, and every row appends one entry.
\<close>

fun collect_responses :: "UserResponse slice \<Rightarrow> User list \<Rightarrow> UserResponse slice" where
  "collect_responses userResponses [] = userResponses"
| "collect_responses userResponses (user # users) =
     collect_responses (append_slice userResponses (to_UserResponse user)) users"

definition GetEmployee :: "driver \<Rightarrow> gorm_DB \<Rightarrow> Response \<times> gorm_DB" where
  "GetEmployee drv db =
     (case Select_Where_role_Find drv ''Employee'' db of
        (Inl errDB, db1) \<Rightarrow> (error_JSON StatusInternalServerError (Error errDB), db1)
      | (Inr users, db1) \<Rightarrow>
          (let userResponses = collect_responses None users
           in (\<lparr>status = StatusOK,
                 body = JObj [(''message'', JStr ''Employees retrieved successfully''),
                              (''count'', JNum (int (len_slice userResponses))),
                              (''employees'', marshal_slice marshal_UserResponse userResponses)]\<rparr>,
               db1)))"

subsection \<open>The seed of the owner account (config/database.go)\<close>


section \<open>Observations and sample data\<close>


text \<open>
  A sample run: a validator that asks for an \<open>@\<close>, a hash that prefixes the password, a
  driver that never fails, and a table with the seeded owner and one employee.
\<close>

definition example_Env :: Env where
  "example_Env =
     \<lparr>is_email = (\<lambda>s. CHR ''@'' \<in> set s),
      CompareHashAndPassword = (\<lambda>h p. h = ''hash:'' @ p),
      GenerateFromPassword = (\<lambda>p. if 72 < length p then None else Some (''hash:'' @ p))\<rparr>"

definition no_failure :: driver where
  "no_failure = (\<lambda>s. None)"

definition noon :: Time where
  "noon = \<lparr>year = 2024, month = 3, day = 9, hour = 12, minute = 0, second = 5\<rparr>"


definition owner_row :: User where
  "owner_row =
     \<lparr>UserId = 1, Role = ''Admin'', Name = ''Owner'', Email = ''owner@go.id'',
      Password = ''hash:123456'', CreatedAt = noon, UpdatedAt = noon\<rparr>"

definition alice_row :: User where
  "alice_row =
     \<lparr>UserId = 2, Role = ''Employee'', Name = ''A'', Email = ''a@x.com'',
      Password = ''hash:secret1'', CreatedAt = noon, UpdatedAt = noon\<rparr>"

definition example_DB :: gorm_DB where
  "example_DB = \<lparr>rows = [owner_row, alice_row], auto_increment = 3, issued = []\<rparr>"

text \<open>A driver whose lookups fail while every other statement executes, and a table without employees.\<close>

definition failing_lookups :: driver where
  "failing_lookups s =
     (case s of
        SelectFirstByEmail email \<Rightarrow> Some (DriverError ''connection refused'')
      | SelectFirstById i \<Rightarrow> Some (DriverError ''connection refused'')
      | _ \<Rightarrow> None)"

definition owner_only_DB :: gorm_DB where
  "owner_only_DB = \<lparr>rows = [owner_row], auto_increment = 2, issued = []\<rparr>"

section \<open>Facts about the libraries\<close>

lemma least_Id_in: "least_Id u us \<in> set (u # us)"
  by (induction us arbitrary: u) auto

lemma First_log: "snd (First drv s cond db) = send s db"
  by (simp add: First_def split: option.splits list.splits)

lemma First_found:
  assumes "First drv s cond db = (Inr u, db')"
  shows "u \<in> set (rows db) \<and> cond u \<and> drv s = None"
proof -
  from assms obtain v vs where f: "filter cond (rows db) = v # vs" and u: "u = least_Id v vs" and d: "drv s = None"
    by (auto simp: First_def split: option.splits list.splits)
  have "u \<in> set (filter cond (rows db))"
    using least_Id_in [of v vs] f u by simp
  with d show ?thesis by simp
qed

lemma First_absent:
  assumes "\<forall>u \<in> set (rows db). \<not> cond u"
  shows "\<exists>e. fst (First drv s cond db) = Inl e"
proof -
  have "filter cond (rows db) = []" using assms by (simp add: filter_empty_conv)
  then show ?thesis by (simp add: First_def split: option.splits)
qed

lemma First_present:
  assumes "drv s = None" and "u \<in> set (rows db)" and "cond u"
  shows "\<exists>v. fst (First drv s cond db) = Inr v"
proof -
  have "filter cond (rows db) \<noteq> []" using assms by (auto simp: filter_empty_conv)
  then show ?thesis using assms(1) by (simp add: First_def split: list.splits)
qed

text \<open>What passing the binding tags amounts to, field by field.\<close>

lemma validate_LoginRequest_passes:
  "validate_LoginRequest E r = [] \<longleftrightarrow>
     login_Email r \<noteq> [] \<and> is_email E (login_Email r) \<and> login_Password r \<noteq> []"
  by (auto simp: validate_LoginRequest_def validate_field_def)

lemma validate_CreateUserRequest_passes:
  "validate_CreateUserRequest E r = [] \<longleftrightarrow>
     create_Name r \<noteq> [] \<and> create_Email r \<noteq> [] \<and> is_email E (create_Email r) \<and>
     create_Password r \<noteq> [] \<and> 6 \<le> RuneCountInString (create_Password r)"
  by (auto simp: validate_CreateUserRequest_def validate_field_def)

lemma RuneCountInString_le: "RuneCountInString s \<le> length s"
  by (simp add: RuneCountInString_def)

lemma Format_noon: "Format noon = ''2024-03-09 12:00:05''"
  by code_simp

lemma Create_outcome:
  "Create drv now u db =
     (case drv (InsertUser (u\<lparr>CreatedAt := now, UpdatedAt := now\<rparr>)) of
        Some e \<Rightarrow> (Inl e, send (InsertUser (u\<lparr>CreatedAt := now, UpdatedAt := now\<rparr>)) db)
      | None \<Rightarrow>
          (Inr (u\<lparr>CreatedAt := now, UpdatedAt := now, UserId := auto_increment db\<rparr>),
           send (InsertUser (u\<lparr>CreatedAt := now, UpdatedAt := now\<rparr>))
             (db\<lparr>rows := rows db @ [u\<lparr>CreatedAt := now, UpdatedAt := now, UserId := auto_increment db\<rparr>],
                 auto_increment := auto_increment db + 1\<rparr>)))"
  by (simp add: Create_def Let_def split: option.splits)




lemma Atoi_7: "Atoi ''7'' = Some 7"
  by (simp add: Atoi_def digits_value_def is_digit_def)

lemma validate_alice:
  "validate_CreateUserRequest example_Env
     \<lparr>create_Name = ''A'', create_Email = ''a@x.com'', create_Password = ''secret1''\<rparr> = []"
  by (simp add: validate_CreateUserRequest_def validate_field_def example_Env_def
      RuneCountInString_def is_continuation_def)

section \<open>Login\<close>

text \<open>
  C1. A login request that passes binding, whose lookup by email executes and returns a
  stored user, and whose password verifies against that user's stored hash, is answered
  with status 200 and the projection of that stored user: its id, role, name and email,
  and its two timestamps in the layout \<open>2006-01-02 15:04:05\<close>. No key \<open>password\<close> occurs
  anywhere in the body. That the lookup returns a user includes that the statement
  executed: \<open>First\<close> returns a row only when the driver reports no error. Nothing is
  said here about a lookup that fails in the driver.
\<close>

theorem Login_correct_credentials:
  assumes bind: "validate_LoginRequest E req = []"
    and found: "fst (First_Where_email drv (login_Email req) db) = Inr user"
    and verifies: "CompareHashAndPassword E (Password user) (login_Password req)"
  shows "user \<in> set (rows db) \<and> Email user = login_Email req \<and>
         fst (Login E drv db (Decoded req)) =
           \<lparr>status = 200,
            body = JObj [(''message'', JStr ''Login successful''),
                         (''user'', JObj [(''id'', JNum (UserId user)),
                                          (''role'', JStr (Role user)),
                                          (''name'', JStr (Name user)),
                                          (''email'', JStr (Email user)),
                                          (''createdAt'', JStr (Format (CreatedAt user))),
                                          (''updatedAt'', JStr (Format (UpdatedAt user)))])]\<rparr> \<and>
         ''password'' \<notin> set (keys_of (body (fst (Login E drv db (Decoded req)))))"
proof -
  obtain db1 where l: "First_Where_email drv (login_Email req) db = (Inr user, db1)"
    using found by (cases "First_Where_email drv (login_Email req) db") simp
  then have stored: "user \<in> set (rows db) \<and> Email user = login_Email req"
    using First_found [of drv "SelectFirstByEmail (login_Email req)" "\<lambda>u. Email u = login_Email req" db user db1]
    by (simp add: First_Where_email_def)
  have resp: "fst (Login E drv db (Decoded req)) =
           \<lparr>status = 200,
            body = JObj [(''message'', JStr ''Login successful''),
                         (''user'', JObj [(''id'', JNum (UserId user)),
                                          (''role'', JStr (Role user)),
                                          (''name'', JStr (Name user)),
                                          (''email'', JStr (Email user)),
                                          (''createdAt'', JStr (Format (CreatedAt user))),
                                          (''updatedAt'', JStr (Format (UpdatedAt user)))])]\<rparr>"
    using bind l verifies
    by (simp add: Login_def ShouldBindJSON_def StatusOK_def marshal_UserResponse_def to_UserResponse_def)
  show ?thesis using stored resp by simp
qed

theorem Login_correct_credentials_witness:
  "validate_LoginRequest example_Env \<lparr>login_Email = ''a@x.com'', login_Password = ''secret1''\<rparr> = [] \<and>
   fst (First_Where_email no_failure ''a@x.com'' example_DB) = Inr alice_row \<and>
   CompareHashAndPassword example_Env (Password alice_row) ''secret1'' \<and>
   fst (Login example_Env no_failure example_DB
          (Decoded \<lparr>login_Email = ''a@x.com'', login_Password = ''secret1''\<rparr>)) =
     \<lparr>status = 200,
      body = JObj [(''message'', JStr ''Login successful''),
                   (''user'', JObj [(''id'', JNum 2),
                                    (''role'', JStr ''Employee''),
                                    (''name'', JStr ''A''),
                                    (''email'', JStr ''a@x.com''),
                                    (''createdAt'', JStr ''2024-03-09 12:00:05''),
                                    (''updatedAt'', JStr ''2024-03-09 12:00:05'')])]\<rparr>"
proof -
  let ?req = "\<lparr>login_Email = ''a@x.com'', login_Password = ''secret1''\<rparr>"
  have b: "validate_LoginRequest example_Env ?req = []"
    by (simp add: validate_LoginRequest_def validate_field_def example_Env_def)
  have f: "fst (First_Where_email no_failure (login_Email ?req) example_DB) = Inr alice_row"
    by (simp add: First_Where_email_def First_def no_failure_def example_DB_def owner_row_def alice_row_def)
  have v: "CompareHashAndPassword example_Env (Password alice_row) (login_Password ?req)"
    by (simp add: example_Env_def alice_row_def)
  from Login_correct_credentials [OF b f v] b f v show ?thesis
    by (simp add: alice_row_def Format_noon)
qed

text \<open>
  Without the condition on the lookup the statement of C1 fails: the email is that of a
  stored user, the password verifies against that user's hash and the request passes
  binding, but the lookup fails in the driver, and the answer is 401.
\<close>

theorem Login_correct_credentials_counterexample:
  "alice_row \<in> set (rows example_DB) \<and>
   Email alice_row = ''a@x.com'' \<and>
   CompareHashAndPassword example_Env (Password alice_row) ''secret1'' \<and>
   validate_LoginRequest example_Env \<lparr>login_Email = ''a@x.com'', login_Password = ''secret1''\<rparr> = [] \<and>
   fst (Login example_Env failing_lookups example_DB
          (Decoded \<lparr>login_Email = ''a@x.com'', login_Password = ''secret1''\<rparr>)) =
     \<lparr>status = 401, body = JObj [(''error'', JStr ''Email or Password is Wrong'')]\<rparr> \<and>
   status (fst (Login example_Env failing_lookups example_DB
          (Decoded \<lparr>login_Email = ''a@x.com'', login_Password = ''secret1''\<rparr>))) \<noteq> 200"
proof -
  let ?req = "\<lparr>login_Email = ''a@x.com'', login_Password = ''secret1''\<rparr>"
  have b: "validate_LoginRequest example_Env ?req = []"
    by (simp add: validate_LoginRequest_def validate_field_def example_Env_def)
  have r: "fst (Login example_Env failing_lookups example_DB (Decoded ?req)) =
     \<lparr>status = 401, body = JObj [(''error'', JStr ''Email or Password is Wrong'')]\<rparr>"
    using b
    by (simp add: Login_def ShouldBindJSON_def First_Where_email_def First_def failing_lookups_def
        wrong_credentials_def error_JSON_def StatusUnauthorized_def)
  have s: "alice_row \<in> set (rows example_DB)"
    by (simp add: example_DB_def)
  have e: "Email alice_row = ''a@x.com''" and v: "CompareHashAndPassword example_Env (Password alice_row) ''secret1''"
    by (simp_all add: alice_row_def example_Env_def)
  show ?thesis using b r s e v by simp
qed

text \<open>
  C2. Of two login requests that pass binding, one with an email that no stored user has
  and one whose email the lookup matches to a user whose hash the password does not
  verify against, both get the same response: status 401 and the one error body. The
  first holds whatever the driver does.
\<close>

theorem Login_failures_indistinguishable:
  assumes bind1: "validate_LoginRequest E req1 = []"
    and bind2: "validate_LoginRequest E req2 = []"
    and unknown: "\<forall>u \<in> set (rows db1). Email u \<noteq> login_Email req1"
    and known: "fst (First_Where_email drv2 (login_Email req2) db2) = Inr user"
    and wrong: "\<not> CompareHashAndPassword E (Password user) (login_Password req2)"
  shows "fst (Login E drv1 db1 (Decoded req1)) = fst (Login E drv2 db2 (Decoded req2)) \<and>
         fst (Login E drv2 db2 (Decoded req2)) =
           \<lparr>status = 401, body = JObj [(''error'', JStr ''Email or Password is Wrong'')]\<rparr>"
proof -
  obtain e where "fst (First_Where_email drv1 (login_Email req1) db1) = Inl e"
    using First_absent [of db1 "\<lambda>u. Email u = login_Email req1" drv1 "SelectFirstByEmail (login_Email req1)"] unknown
    by (auto simp: First_Where_email_def)
  then obtain d1 where l1: "First_Where_email drv1 (login_Email req1) db1 = (Inl e, d1)"
    by (cases "First_Where_email drv1 (login_Email req1) db1") simp
  obtain d2 where l2: "First_Where_email drv2 (login_Email req2) db2 = (Inr user, d2)"
    using known by (cases "First_Where_email drv2 (login_Email req2) db2") simp
  have r1: "fst (Login E drv1 db1 (Decoded req1)) = wrong_credentials"
    using bind1 l1 by (simp add: Login_def ShouldBindJSON_def)
  have r2: "fst (Login E drv2 db2 (Decoded req2)) = wrong_credentials"
    using bind2 l2 wrong by (simp add: Login_def ShouldBindJSON_def)
  show ?thesis
    using r1 r2 by (simp add: wrong_credentials_def error_JSON_def StatusUnauthorized_def)
qed

theorem Login_failures_indistinguishable_witness:
  "validate_LoginRequest example_Env \<lparr>login_Email = ''nobody@x.com'', login_Password = ''secret1''\<rparr> = [] \<and>
   validate_LoginRequest example_Env \<lparr>login_Email = ''a@x.com'', login_Password = ''guess''\<rparr> = [] \<and>
   fst (First_Where_email no_failure ''a@x.com'' example_DB) = Inr alice_row \<and>
   \<not> CompareHashAndPassword example_Env (Password alice_row) ''guess'' \<and>
   fst (Login example_Env no_failure example_DB
          (Decoded \<lparr>login_Email = ''nobody@x.com'', login_Password = ''secret1''\<rparr>)) =
   fst (Login example_Env no_failure example_DB
          (Decoded \<lparr>login_Email = ''a@x.com'', login_Password = ''guess''\<rparr>)) \<and>
   fst (Login example_Env no_failure example_DB
          (Decoded \<lparr>login_Email = ''a@x.com'', login_Password = ''guess''\<rparr>)) =
     \<lparr>status = 401, body = JObj [(''error'', JStr ''Email or Password is Wrong'')]\<rparr>"
proof -
  let ?r1 = "\<lparr>login_Email = ''nobody@x.com'', login_Password = ''secret1''\<rparr>"
  let ?r2 = "\<lparr>login_Email = ''a@x.com'', login_Password = ''guess''\<rparr>"
  have b1: "validate_LoginRequest example_Env ?r1 = []"
    by (simp add: validate_LoginRequest_def validate_field_def example_Env_def)
  have b2: "validate_LoginRequest example_Env ?r2 = []"
    by (simp add: validate_LoginRequest_def validate_field_def example_Env_def)
  have u: "\<forall>u \<in> set (rows example_DB). Email u \<noteq> login_Email ?r1"
    by (simp add: example_DB_def owner_row_def alice_row_def)
  have k: "fst (First_Where_email no_failure (login_Email ?r2) example_DB) = Inr alice_row"
    by (simp add: First_Where_email_def First_def no_failure_def example_DB_def owner_row_def alice_row_def)
  have w: "\<not> CompareHashAndPassword example_Env (Password alice_row) (login_Password ?r2)"
    by (simp add: example_Env_def alice_row_def)
  from Login_failures_indistinguishable [OF b1 b2 u k w] b1 b2 k w show ?thesis
    by simp
qed

section \<open>CreateAccount\<close>

text \<open>
  C3. A create-account request that passes binding and carries the email of a stored
  user, and whose pre-check lookup executes without an error of the driver, is answered
  with status 400 and the error \<open>Email already exists\<close>. The table and the
  auto-increment counter are as before, and the lookup is the only statement sent. Nothing
  is said here about a pre-check that fails in the driver.
\<close>

theorem CreateAccount_duplicate_email:
  assumes bind: "validate_CreateUserRequest E req = []"
    and executes: "drv (SelectFirstByEmail (create_Email req)) = None"
    and stored: "u \<in> set (rows db)"
    and same: "Email u = create_Email req"
  shows "fst (CreateAccount E drv now db (Decoded req)) =
           \<lparr>status = 400, body = JObj [(''error'', JStr ''Email already exists'')]\<rparr> \<and>
         rows (snd (CreateAccount E drv now db (Decoded req))) = rows db \<and>
         auto_increment (snd (CreateAccount E drv now db (Decoded req))) = auto_increment db \<and>
         issued (snd (CreateAccount E drv now db (Decoded req))) =
           issued db @ [SelectFirstByEmail (create_Email req)]"
proof -
  let ?s = "SelectFirstByEmail (create_Email req)"
  obtain v where "fst (First_Where_email drv (create_Email req) db) = Inr v"
    using First_present [of drv ?s u db "\<lambda>u. Email u = create_Email req"] executes stored same
    by (auto simp: First_Where_email_def)
  moreover have "snd (First_Where_email drv (create_Email req) db) = send ?s db"
    by (simp add: First_Where_email_def First_log)
  ultimately have l: "First_Where_email drv (create_Email req) db = (Inr v, send ?s db)"
    by (cases "First_Where_email drv (create_Email req) db") simp
  show ?thesis
    using bind l
    by (simp add: CreateAccount_def ShouldBindJSON_def error_JSON_def StatusBadRequest_def send_def)
qed

theorem CreateAccount_duplicate_email_witness:
  "validate_CreateUserRequest example_Env
     \<lparr>create_Name = ''A'', create_Email = ''a@x.com'', create_Password = ''secret1''\<rparr> = [] \<and>
   no_failure (SelectFirstByEmail ''a@x.com'') = None \<and>
   alice_row \<in> set (rows example_DB) \<and>
   Email alice_row = ''a@x.com'' \<and>
   CreateAccount example_Env no_failure noon example_DB
     (Decoded \<lparr>create_Name = ''A'', create_Email = ''a@x.com'', create_Password = ''secret1''\<rparr>) =
     (\<lparr>status = 400, body = JObj [(''error'', JStr ''Email already exists'')]\<rparr>,
      example_DB\<lparr>issued := [SelectFirstByEmail ''a@x.com'']\<rparr>)"
proof -
  let ?req = "\<lparr>create_Name = ''A'', create_Email = ''a@x.com'', create_Password = ''secret1''\<rparr>"
  have b: "validate_CreateUserRequest example_Env ?req = []"
    by (simp add: validate_CreateUserRequest_def validate_field_def example_Env_def
        RuneCountInString_def is_continuation_def)
  have x: "no_failure (SelectFirstByEmail (create_Email ?req)) = None"
    by (simp add: no_failure_def)
  have s: "alice_row \<in> set (rows example_DB)"
    by (simp add: example_DB_def)
  have e: "Email alice_row = create_Email ?req"
    by (simp add: alice_row_def)
  from CreateAccount_duplicate_email
         [where E = example_Env and drv = no_failure and req = ?req and u = alice_row
            and db = example_DB and now = noon, OF b x s e] b x s e
  show ?thesis
    by (simp add: prod_eq_iff example_DB_def)
qed

text \<open>
  Without the condition on the pre-check the statement of C3 fails: the email is that of a
  stored user and the request passes binding, but the pre-check fails in the driver, and
  the answer is 201 with a second row of that email in the table.
\<close>

theorem CreateAccount_duplicate_email_counterexample:
  "alice_row \<in> set (rows example_DB) \<and>
   Email alice_row = ''a@x.com'' \<and>
   validate_CreateUserRequest example_Env
     \<lparr>create_Name = ''A'', create_Email = ''a@x.com'', create_Password = ''secret1''\<rparr> = [] \<and>
   status (fst (CreateAccount example_Env failing_lookups noon example_DB
      (Decoded \<lparr>create_Name = ''A'', create_Email = ''a@x.com'', create_Password = ''secret1''\<rparr>))) = 201 \<and>
   rows (snd (CreateAccount example_Env failing_lookups noon example_DB
      (Decoded \<lparr>create_Name = ''A'', create_Email = ''a@x.com'', create_Password = ''secret1''\<rparr>))) =
     [owner_row, alice_row, alice_row\<lparr>UserId := 3\<rparr>] \<and>
   rows (snd (CreateAccount example_Env failing_lookups noon example_DB
      (Decoded \<lparr>create_Name = ''A'', create_Email = ''a@x.com'', create_Password = ''secret1''\<rparr>))) \<noteq>
     rows example_DB"
proof -
  let ?r = "CreateAccount example_Env failing_lookups noon example_DB
      (Decoded \<lparr>create_Name = ''A'', create_Email = ''a@x.com'', create_Password = ''secret1''\<rparr>)"
  have st: "status (fst ?r) = 201"
    using validate_alice
    by (simp add: CreateAccount_def ShouldBindJSON_def First_Where_email_def First_def Create_outcome
        failing_lookups_def example_Env_def StatusCreated_def)
  have rs: "rows (snd ?r) = [owner_row, alice_row, alice_row\<lparr>UserId := 3\<rparr>]"
    using validate_alice
    by (simp add: CreateAccount_def ShouldBindJSON_def First_Where_email_def First_def Create_outcome
        failing_lookups_def example_Env_def example_DB_def alice_row_def send_def)
  have s: "alice_row \<in> set (rows example_DB)"
    by (simp add: example_DB_def)
  have e: "Email alice_row = ''a@x.com''"
    by (simp add: alice_row_def)
  have ne: "rows (snd ?r) \<noteq> rows example_DB"
    using rs by (simp add: example_DB_def)
  show ?thesis using validate_alice st rs s e ne by simp
qed

text \<open>
  C4. A create-account request whose password is shorter than 6, counted in bytes or in
  runes, is answered with status 400, and the handle is returned as it was: same table,
  same counter, and no statement sent.
\<close>

theorem CreateAccount_short_password:
  assumes short: "length (create_Password req) < 6 \<or> RuneCountInString (create_Password req) < 6"
  shows "status (fst (CreateAccount E drv now db (Decoded req))) = 400 \<and>
         snd (CreateAccount E drv now db (Decoded req)) = db"
proof -
  have "RuneCountInString (create_Password req) < 6"
    using short RuneCountInString_le [of "create_Password req"] by auto
  then have "validate_CreateUserRequest E req \<noteq> []"
    by (simp add: validate_CreateUserRequest_def validate_field_def)
  then show ?thesis
    by (simp add: CreateAccount_def ShouldBindJSON_def error_JSON_def StatusBadRequest_def)
qed

theorem CreateAccount_short_password_witness:
  "length ''abc12'' < 6 \<and>
   CreateAccount example_Env no_failure noon example_DB
     (Decoded \<lparr>create_Name = ''B'', create_Email = ''b@x.com'', create_Password = ''abc12''\<rparr>) =
     (\<lparr>status = 400,
       body = JObj [(''error'', JStr (FieldError ''CreateUserRequest'' ''Password'' ''min''))]\<rparr>,
      example_DB)"
proof -
  let ?req = "\<lparr>create_Name = ''B'', create_Email = ''b@x.com'', create_Password = ''abc12''\<rparr>"
  have h: "length (create_Password ?req) < 6 \<or> RuneCountInString (create_Password ?req) < 6"
    by simp
  have v: "validate_CreateUserRequest example_Env ?req = [FieldError ''CreateUserRequest'' ''Password'' ''min'']"
    by (simp add: validate_CreateUserRequest_def validate_field_def example_Env_def
        RuneCountInString_def is_continuation_def)
  have b: "body (fst (CreateAccount example_Env no_failure noon example_DB (Decoded ?req))) =
             JObj [(''error'', JStr (FieldError ''CreateUserRequest'' ''Password'' ''min''))]"
    using v by (simp add: CreateAccount_def ShouldBindJSON_def error_JSON_def)
  from CreateAccount_short_password [OF h, of example_Env no_failure noon example_DB] b show ?thesis
    by (simp add: prod_eq_iff Response.equality)
qed

text \<open>
  C5. Whenever CreateAccount answers 201, exactly one row was appended to the table, that
  row has the role \<open>Employee\<close>, the \<open>user\<close> member of the body is the projection of that
  row, and its \<open>role\<close> member is \<open>Employee\<close>. Whatever the input, the payload, the driver
  and the table, every row with the role \<open>Admin\<close> in the table afterwards was in the table
  before.
\<close>

theorem CreateAccount_role:
  "(status (fst (CreateAccount E drv now db p)) = 201 \<longrightarrow>
      (\<exists>stored. rows (snd (CreateAccount E drv now db p)) = rows db @ [stored] \<and>
                Role stored = ''Employee'' \<and>
                json_member ''user'' (body (fst (CreateAccount E drv now db p))) =
                  Some (marshal_UserResponse (to_UserResponse stored))) \<and>
      Option.bind (json_member ''user'' (body (fst (CreateAccount E drv now db p))))
                  (json_member ''role'') = Some (JStr ''Employee'')) \<and>
   (\<forall>u \<in> set (rows (snd (CreateAccount E drv now db p))).
      Role u = ''Admin'' \<longrightarrow> u \<in> set (rows db))"
  by (auto simp: CreateAccount_def ShouldBindJSON_def First_Where_email_def First_def Create_outcome
        error_JSON_def send_def json_member_def marshal_UserResponse_def to_UserResponse_def
        StatusCreated_def StatusBadRequest_def StatusInternalServerError_def
      split: payload.splits option.splits list.splits sum.splits prod.splits if_splits)

theorem CreateAccount_role_witness:
  "status (fst (CreateAccount example_Env no_failure noon owner_only_DB
      (Decoded \<lparr>create_Name = ''A'', create_Email = ''a@x.com'', create_Password = ''secret1''\<rparr>))) = 201 \<and>
   rows (snd (CreateAccount example_Env no_failure noon owner_only_DB
      (Decoded \<lparr>create_Name = ''A'', create_Email = ''a@x.com'', create_Password = ''secret1''\<rparr>))) =
     [owner_row, alice_row] \<and>
   Option.bind
     (json_member ''user'' (body (fst (CreateAccount example_Env no_failure noon owner_only_DB
        (Decoded \<lparr>create_Name = ''A'', create_Email = ''a@x.com'', create_Password = ''secret1''\<rparr>)))))
     (json_member ''role'') = Some (JStr ''Employee'')"
proof -
  let ?r = "CreateAccount example_Env no_failure noon owner_only_DB
      (Decoded \<lparr>create_Name = ''A'', create_Email = ''a@x.com'', create_Password = ''secret1''\<rparr>)"
  have st: "status (fst ?r) = 201"
    using validate_alice
    by (simp add: CreateAccount_def ShouldBindJSON_def First_Where_email_def First_def Create_outcome
        no_failure_def owner_only_DB_def owner_row_def example_Env_def StatusCreated_def send_def)
  have rs: "rows (snd ?r) = [owner_row, alice_row]"
    using validate_alice
    by (simp add: CreateAccount_def ShouldBindJSON_def First_Where_email_def First_def Create_outcome
        no_failure_def owner_only_DB_def owner_row_def alice_row_def example_Env_def send_def)
  from CreateAccount_role [of example_Env no_failure noon owner_only_DB
      "Decoded \<lparr>create_Name = ''A'', create_Email = ''a@x.com'', create_Password = ''secret1''\<rparr>"] st
  have "Option.bind (json_member ''user'' (body (fst ?r))) (json_member ''role'') = Some (JStr ''Employee'')"
    by blast
  with st rs show ?thesis by simp
qed



section \<open>Delete\<close>

text \<open>
  C6. When the path id parses as an integer that is the id of no stored row, Delete answers
  404 with the error \<open>User not found\<close>, whatever the driver does; the table and the
  counter are as before, and the lookup is the only statement sent.
\<close>

theorem Delete_absent_id:
  assumes parses: "Atoi idParam = Some i"
    and absent: "\<forall>u \<in> set (rows db). UserId u \<noteq> i"
  shows "fst (Delete drv db idParam) =
           \<lparr>status = 404, body = JObj [(''error'', JStr ''User not found'')]\<rparr> \<and>
         rows (snd (Delete drv db idParam)) = rows db \<and>
         auto_increment (snd (Delete drv db idParam)) = auto_increment db \<and>
         issued (snd (Delete drv db idParam)) = issued db @ [SelectFirstById i]"
proof -
  obtain e where "fst (First_id drv i db) = Inl e"
    using First_absent [of db "\<lambda>u. UserId u = i" drv "SelectFirstById i"] absent
    by (auto simp: First_id_def)
  moreover have "snd (First_id drv i db) = send (SelectFirstById i) db"
    by (simp add: First_id_def First_log)
  ultimately have l: "First_id drv i db = (Inl e, send (SelectFirstById i) db)"
    by (cases "First_id drv i db") simp
  show ?thesis
    using parses l by (simp add: Delete_def error_JSON_def StatusNotFound_def send_def)
qed

theorem Delete_absent_id_witness:
  "Atoi ''7'' = Some 7 \<and>
   Delete no_failure example_DB ''7'' =
     (\<lparr>status = 404, body = JObj [(''error'', JStr ''User not found'')]\<rparr>,
      example_DB\<lparr>issued := [SelectFirstById 7]\<rparr>)"
proof -
  have a: "\<forall>u \<in> set (rows example_DB). UserId u \<noteq> 7"
    by (simp add: example_DB_def owner_row_def alice_row_def)
  from Delete_absent_id [OF Atoi_7 a, of no_failure] Atoi_7 show ?thesis
    by (simp add: prod_eq_iff example_DB_def)
qed

section \<open>GetEmployee\<close>



text \<open>
  C8. When the statement executes and no stored row has the role \<open>Employee\<close>, the answer
  is 200 with \<open>count\<close> 0, and \<open>employees\<close> is \<open>null\<close>: the slice was never appended to,
  so it is still nil when it is encoded. It is not the empty array.
\<close>

theorem GetEmployee_no_employee_rows:
  assumes executes: "drv (SelectByRole ''Employee'') = None"
    and none: "\<forall>u \<in> set (rows db). Role u \<noteq> ''Employee''"
  shows "fst (GetEmployee drv db) =
           \<lparr>status = 200,
            body = JObj [(''message'', JStr ''Employees retrieved successfully''),
                         (''count'', JNum 0),
                         (''employees'', JNull)]\<rparr> \<and>
         json_member ''employees'' (body (fst (GetEmployee drv db))) \<noteq> Some (JArr [])"
proof -
  have "filter (\<lambda>u. Role u = ''Employee'') (rows db) = []"
    using none by (simp add: filter_empty_conv)
  then show ?thesis
    using executes
    by (simp add: GetEmployee_def Select_Where_role_Find_def marshal_slice_def len_slice_def
        StatusOK_def json_member_def)
qed

theorem GetEmployee_no_employee_rows_witness:
  "no_failure (SelectByRole ''Employee'') = None \<and>
   fst (GetEmployee no_failure owner_only_DB) =
     \<lparr>status = 200,
      body = JObj [(''message'', JStr ''Employees retrieved successfully''),
                   (''count'', JNum 0),
                   (''employees'', JNull)]\<rparr>"
proof -
  have x: "no_failure (SelectByRole ''Employee'') = None"
    by (simp add: no_failure_def)
  have n: "\<forall>u \<in> set (rows owner_only_DB). Role u \<noteq> ''Employee''"
    by (simp add: owner_only_DB_def owner_row_def)
  from GetEmployee_no_employee_rows
         [where drv = no_failure and db = owner_only_DB, OF x n] x
  show ?thesis by simp
qed

section \<open>Statuses of failures\<close>

text \<open>
  C9. An error of the driver during a lookup is not answered with 500. Login answers it
  with 401 and the message for wrong credentials; Delete answers it with 404 and
  \<open>User not found\<close>. (CreateAccount does not answer it at all: see C10.)
\<close>

theorem lookup_error_not_surfaced:
  assumes bind: "validate_LoginRequest E req = []"
    and login_lookup: "drv (SelectFirstByEmail (login_Email req)) = Some e"
    and parses: "Atoi idParam = Some i"
    and delete_lookup: "drv (SelectFirstById i) = Some e'"
  shows "fst (Login E drv db (Decoded req)) =
           \<lparr>status = 401, body = JObj [(''error'', JStr ''Email or Password is Wrong'')]\<rparr> \<and>
         fst (Delete drv db idParam) =
           \<lparr>status = 404, body = JObj [(''error'', JStr ''User not found'')]\<rparr>"
  using assms
  by (simp add: Login_def Delete_def ShouldBindJSON_def First_Where_email_def First_id_def First_def
      wrong_credentials_def error_JSON_def StatusUnauthorized_def StatusNotFound_def)

theorem lookup_error_not_surfaced_witness:
  "failing_lookups (SelectFirstByEmail ''a@x.com'') = Some (DriverError ''connection refused'') \<and>
   failing_lookups (SelectFirstById 2) = Some (DriverError ''connection refused'') \<and>
   fst (Login example_Env failing_lookups example_DB
          (Decoded \<lparr>login_Email = ''a@x.com'', login_Password = ''secret1''\<rparr>)) =
     \<lparr>status = 401, body = JObj [(''error'', JStr ''Email or Password is Wrong'')]\<rparr> \<and>
   fst (Delete failing_lookups example_DB ''2'') =
     \<lparr>status = 404, body = JObj [(''error'', JStr ''User not found'')]\<rparr>"
proof -
  let ?req = "\<lparr>login_Email = ''a@x.com'', login_Password = ''secret1''\<rparr>"
  have b: "validate_LoginRequest example_Env ?req = []"
    by (simp add: validate_LoginRequest_def validate_field_def example_Env_def)
  have l: "failing_lookups (SelectFirstByEmail (login_Email ?req)) = Some (DriverError ''connection refused'')"
    by (simp add: failing_lookups_def)
  have p: "Atoi ''2'' = Some 2"
    by (simp add: Atoi_def digits_value_def is_digit_def)
  have d: "failing_lookups (SelectFirstById 2) = Some (DriverError ''connection refused'')"
    by (simp add: failing_lookups_def)
  from lookup_error_not_surfaced
         [where E = example_Env and req = ?req and drv = failing_lookups and idParam = "''2''"
            and i = 2 and db = example_DB, OF b l p d] l d
  show ?thesis by simp
qed

end
